theory Spec2Isabelle
  imports Main
begin

section \<open>The video captioning pipeline of app.py\<close>

text \<open>
  The program drives every uploaded video through three stages (extract the audio with
  ffmpeg, transcribe it with a speech-to-text service, burn the subtitles in with ffmpeg)
  and removes the temporary files of each item afterwards.

  The embedding is shallow. Everything the program touches outside itself is a field of
  the record \<open>world\<close>, passed in and returned: the file system, the argument vectors
  handed to \<open>subprocess.run\<close>, the requests sent to the service, the widgets drawn and
  the log. What the outside answers is a field of the record \<open>env\<close>: the transcoder and
  the service are arbitrary functions, so every theorem holds for whatever they do.
  A Python exception is a value of type \<open>exn\<close>, and a function that may raise returns
  \<open>exn + 'a\<close>.

  Paths are those of a POSIX system: \<open>os.path.join\<close> is \<open>posixpath.join\<close>.
  The platform's line separator \<open>os.linesep\<close> is a field of \<open>env\<close>. A Python
  \<open>str\<close> is represented by its UTF-8 bytes.
\<close>

subsection \<open>Exceptions\<close>

text \<open>
  \<open>subprocess.CalledProcessError(returncode, cmd, output, stderr)\<close>; the last two are
  \<open>None\<close> unless the caller asked \<open>subprocess.run\<close> to capture them.
\<close>

datatype called_process_error =
  CalledProcessError int "string list" "string option" "string option"

text \<open>
  The exception classes the program meets. The string is the message where the program
  supplies one and the path the system call failed on otherwise. \<open>OSError\<close> carries
  the exception it was raised \<open>from\<close>. \<open>ServiceError\<close> stands for the exceptions of
  the speech-to-text client library, which derive from \<open>Exception\<close> directly.
\<close>

datatype exn =
    FileNotFoundError string
  | FileExistsError string
  | IsADirectoryError string
  | OSError string "called_process_error option"
  | UnboundLocalError string
  | ServiceError string

text \<open>\<open>isinstance(e, FileNotFoundError)\<close> and \<open>isinstance(e, OSError)\<close>.\<close>

fun is_FileNotFoundError :: "exn \<Rightarrow> bool" where
  "is_FileNotFoundError (FileNotFoundError _) = True"
| "is_FileNotFoundError _ = False"

fun is_OSError :: "exn \<Rightarrow> bool" where
  "is_OSError (FileNotFoundError _) = True"
| "is_OSError (FileExistsError _) = True"
| "is_OSError (IsADirectoryError _) = True"
| "is_OSError (OSError _ _) = True"
| "is_OSError (UnboundLocalError _) = False"
| "is_OSError (ServiceError _) = False"

text \<open>Every piece of text an exception holds, its cause included.\<close>

fun cause_texts :: "called_process_error \<Rightarrow> string list" where
  "cause_texts (CalledProcessError rc argv out err) =
     argv @ (case out of None \<Rightarrow> [] | Some s \<Rightarrow> [s]) @ (case err of None \<Rightarrow> [] | Some s \<Rightarrow> [s])"

fun exn_texts :: "exn \<Rightarrow> string list" where
  "exn_texts (FileNotFoundError m) = [m]"
| "exn_texts (FileExistsError m) = [m]"
| "exn_texts (IsADirectoryError m) = [m]"
| "exn_texts (OSError m c) = m # (case c of None \<Rightarrow> [] | Some x \<Rightarrow> cause_texts x)"
| "exn_texts (UnboundLocalError m) = [m]"
| "exn_texts (ServiceError m) = [m]"

fun occurs_in :: "string \<Rightarrow> string \<Rightarrow> bool" where
  "occurs_in d [] = (d = [])"
| "occurs_in d (c # cs) = (take (length d) (c # cs) = d \<or> occurs_in d cs)"

definition carries :: "exn \<Rightarrow> string \<Rightarrow> bool" where
  "carries e d = list_ex (occurs_in d) (exn_texts e)"

subsection \<open>The world outside the program\<close>

datatype node = File string | Dir

type_synonym fsys = "string \<rightharpoonup> node"

text \<open>The keyword arguments of \<open>openai.Audio.transcribe\<close>: model, file, response format.\<close>

datatype request = TranscribeRequest string string string

text \<open>
  \<open>ErrorBox name e\<close> is \<open>st.error(f"Error processing {name}: {e}")\<close>;
  \<open>DownloadButton label data file_name mime\<close> and \<open>Video path\<close> are the two widgets
  of a delivered item.
\<close>

datatype ui_event =
    Title string
  | ErrorBox string exn
  | DownloadButton string string string string
  | Video string

text \<open>\<open>LogWarning m e\<close> is \<open>logging.warning(f"{m}{e}")\<close>.\<close>

datatype log_entry = LogInfo string | LogError string | LogWarning string exn

record world =
  files :: fsys
  names_drawn :: nat
  proc_calls :: "string list list"
  net_calls :: "request list"
  ui :: "ui_event list"
  logged :: "log_entry list"

text \<open>
  A finished transcoder process: exit status, what it printed, the file system it left.
  \<open>NoSuchProgram\<close>: the binary could not be started.
\<close>

datatype proc_result = Exited int string fsys | NoSuchProgram

datatype svc_result = Body string | Raises exn

text \<open>
  \<open>whisper n r\<close> is the service's answer to request \<open>r\<close> when \<open>n\<close> requests were made
  before; \<open>choices i j\<close> is the random number behind character \<open>j\<close> of the \<open>i\<close>-th
  temporary name; \<open>TMP_MAX\<close> is the platform's bound on the attempts of \<open>tempfile\<close>;
  \<open>linesep\<close> is \<open>os.linesep\<close>.
\<close>

record env =
  ffmpeg :: "string list \<Rightarrow> fsys \<Rightarrow> proc_result"
  whisper :: "nat \<Rightarrow> request \<Rightarrow> svc_result"
  gettempdir :: string
  choices :: "nat \<Rightarrow> nat \<Rightarrow> nat"
  TMP_MAX :: nat
  linesep :: string

record upload =
  upload_name :: string
  upload_data :: string

subsection \<open>Library calls: paths, files, tempfile, logging, widgets\<close>

definition path_join :: "string \<Rightarrow> string \<Rightarrow> string" where
  "path_join a b =
     (if take 1 b = ''/'' then b
      else if a = [] \<or> last a = CHR ''/'' then a @ b
      else a @ ''/'' @ b)"

definition isfile :: "fsys \<Rightarrow> string \<Rightarrow> bool" where
  "isfile fs p = (case fs p of Some (File _) \<Rightarrow> True | _ \<Rightarrow> False)"

text \<open>\<open>inside d p\<close>: the path \<open>p\<close> lies below the directory \<open>d\<close>.\<close>

definition inside :: "string \<Rightarrow> string \<Rightarrow> bool" where
  "inside d p = (take (length d + 1) p = d @ ''/'')"

definition bare_name :: "string \<Rightarrow> bool" where
  "bare_name n = (n \<noteq> [] \<and> CHR ''/'' \<notin> set n)"

definition open_write :: "string \<Rightarrow> string \<Rightarrow> world \<Rightarrow> (exn + unit) \<times> world" where
  "open_write path content w =
     (case files w path of
        Some Dir \<Rightarrow> (Inl (IsADirectoryError path), w)
      | _ \<Rightarrow> (Inr (), w\<lparr>files := (files w)(path \<mapsto> File content)\<rparr>))"

definition open_read :: "string \<Rightarrow> world \<Rightarrow> exn + string" where
  "open_read path w =
     (case files w path of
        None \<Rightarrow> Inl (FileNotFoundError path)
      | Some Dir \<Rightarrow> Inl (IsADirectoryError path)
      | Some (File content) \<Rightarrow> Inr content)"

definition os_remove :: "string \<Rightarrow> world \<Rightarrow> (exn + unit) \<times> world" where
  "os_remove path w =
     (case files w path of
        None \<Rightarrow> (Inl (FileNotFoundError path), w)
      | Some Dir \<Rightarrow> (Inl (IsADirectoryError path), w)
      | Some (File _) \<Rightarrow> (Inr (), w\<lparr>files := (files w)(path := None)\<rparr>))"

text \<open>
  A file opened in text mode with the default \<open>newline\<close> writes each line feed of
  the string as the line separator of the platform and every other character as it is.
\<close>

fun text_mode_bytes :: "string \<Rightarrow> string \<Rightarrow> string" where
  "text_mode_bytes sep [] = []"
| "text_mode_bytes sep (c # cs) = (if c = CHR 0x0A then sep else [c]) @ text_mode_bytes sep cs"

text \<open>
  \<open>tempfile\<close>: a candidate name is eight characters drawn from \<open>characters\<close>;
  \<open>mktemp\<close> returns the first candidate path that does not exist, without creating it;
  \<open>mkdtemp\<close> creates the directory. Both give up after \<open>TMP_MAX\<close> candidates.
\<close>

definition characters :: string where
  "characters = ''abcdefghijklmnopqrstuvwxyz0123456789_''"

definition candidate_name :: "env \<Rightarrow> nat \<Rightarrow> string" where
  "candidate_name e i = map (\<lambda>j. characters ! (choices e i j mod length characters)) [0..<8]"

fun mktemp_loop :: "env \<Rightarrow> fsys \<Rightarrow> string \<Rightarrow> nat \<Rightarrow> nat \<Rightarrow> string option \<times> nat" where
  "mktemp_loop e fs suffix 0 i = (None, i)"
| "mktemp_loop e fs suffix (Suc k) i =
     (let file = path_join (gettempdir e) (''tmp'' @ candidate_name e i @ suffix)
      in if fs file = None then (Some file, Suc i)
         else mktemp_loop e fs suffix k (Suc i))"

definition mktemp :: "env \<Rightarrow> string \<Rightarrow> world \<Rightarrow> (exn + string) \<times> world" where
  "mktemp e suffix w =
     (case mktemp_loop e (files w) suffix (TMP_MAX e) (names_drawn w) of
        (None, i) \<Rightarrow>
          (Inl (FileExistsError ''No usable temporary filename found''), w\<lparr>names_drawn := i\<rparr>)
      | (Some file, i) \<Rightarrow> (Inr file, w\<lparr>names_drawn := i\<rparr>))"

definition mkdtemp :: "env \<Rightarrow> world \<Rightarrow> (exn + string) \<times> world" where
  "mkdtemp e w =
     (case mktemp_loop e (files w) [] (TMP_MAX e) (names_drawn w) of
        (None, i) \<Rightarrow>
          (Inl (FileExistsError ''No usable temporary directory name found''),
           w\<lparr>names_drawn := i\<rparr>)
      | (Some file, i) \<Rightarrow>
          (Inr file, w\<lparr>files := (files w)(file \<mapsto> Dir), names_drawn := i\<rparr>))"

text \<open>Leaving the \<open>with tempfile.TemporaryDirectory()\<close> block.\<close>

definition rmtree :: "string \<Rightarrow> fsys \<Rightarrow> fsys" where
  "rmtree d fs = (\<lambda>p. if p = d \<or> inside d p then None else fs p)"

definition logging :: "log_entry \<Rightarrow> world \<Rightarrow> world" where
  "logging l w = w\<lparr>logged := logged w @ [l]\<rparr>"

definition st :: "ui_event \<Rightarrow> world \<Rightarrow> world" where
  "st ev w = w\<lparr>ui := ui w @ [ev]\<rparr>"

text \<open>
  \<open>subprocess.run(command, check=True)\<close> with nothing captured: the command is started
  on the current file system; a non-zero exit status raises \<open>CalledProcessError\<close> with
  \<open>output\<close> and \<open>stderr\<close> unset, a missing binary raises \<open>FileNotFoundError\<close>.
\<close>

datatype run_error = Called called_process_error | Other exn

definition subprocess_run :: "env \<Rightarrow> string list \<Rightarrow> world \<Rightarrow> (run_error + unit) \<times> world" where
  "subprocess_run e command w =
     (let w1 = w\<lparr>proc_calls := proc_calls w @ [command]\<rparr>
      in case ffmpeg e command (files w1) of
           NoSuchProgram \<Rightarrow> (Inl (Other (FileNotFoundError (hd command))), w1)
         | Exited rc diag fs' \<Rightarrow>
             (if rc = 0 then (Inr (), w1\<lparr>files := fs'\<rparr>)
              else (Inl (Called (CalledProcessError rc command None None)), w1\<lparr>files := fs'\<rparr>)))"

subsection \<open>The three stages\<close>

definition extract_command :: "string \<Rightarrow> string \<Rightarrow> string list" where
  "extract_command video_file_path output_audio_path =
     [''ffmpeg'', ''-i'', video_file_path, ''-q:a'', ''0'', ''-map'', ''a'', output_audio_path]"

definition extract_audio_from_video ::
  "env \<Rightarrow> string \<Rightarrow> string \<Rightarrow> world \<Rightarrow> (exn + unit) \<times> world" where
  "extract_audio_from_video e video_file_path output_audio_path w =
     (let w1 = logging (LogInfo (''Extracting audio from '' @ video_file_path @ '' to ''
                                  @ output_audio_path)) w;
          command = extract_command video_file_path output_audio_path
      in case subprocess_run e command w1 of
           (Inr _, w2) \<Rightarrow>
             (Inr (), logging (LogInfo (''Audio extracted to '' @ output_audio_path)) w2)
         | (Inl (Called c), w2) \<Rightarrow>
             (Inl (OSError ''Failed to extract audio from video'' (Some c)),
              logging (LogError ''Failed to extract audio from video'') w2)
         | (Inl (Other x), w2) \<Rightarrow> (Inl x, w2))"

definition transcribe_and_save_srt ::
  "env \<Rightarrow> string \<Rightarrow> string \<Rightarrow> world \<Rightarrow> (exn + string) \<times> world" where
  "transcribe_and_save_srt e audio_file_path input_video_name w =
     (if \<not> isfile (files w) audio_file_path
      then (Inl (FileNotFoundError (''Audio file '' @ audio_file_path @ '' does not exist'')), w)
      else
        let w1 = logging (LogInfo (''Transcribing audio file '' @ audio_file_path)) w
        in case open_read audio_file_path w1 of
             Inl x \<Rightarrow> (Inl x, w1)
           | Inr audio_file \<Rightarrow>
               (let r = TranscribeRequest ''whisper-1'' audio_file ''srt'';
                    w2 = w1\<lparr>net_calls := net_calls w1 @ [r]\<rparr>
                in case whisper e (length (net_calls w1)) r of
                     Raises x \<Rightarrow> (Inl x, w2)
                   | Body transcript \<Rightarrow>
                       (case mktemp e ''.srt'' w2 of
                          (Inl x, w3) \<Rightarrow> (Inl x, w3)
                        | (Inr srt_path, w3) \<Rightarrow>
                            (case open_write srt_path (text_mode_bytes (linesep e) transcript) w3 of
                               (Inl x, w4) \<Rightarrow> (Inl x, w4)
                             | (Inr _, w4) \<Rightarrow>
                                 (Inr srt_path,
                                  logging (LogInfo (''SRT file saved as '' @ srt_path)) w4)))))"

definition embed_command :: "string \<Rightarrow> string \<Rightarrow> string \<Rightarrow> string list" where
  "embed_command video_file_path subtitle_file_path output_file_path =
     [''ffmpeg'', ''-i'', video_file_path, ''-vf'', ''subtitles='' @ subtitle_file_path,
      output_file_path]"

definition embed_subtitle_in_video ::
  "env \<Rightarrow> string \<Rightarrow> string \<Rightarrow> string \<Rightarrow> world \<Rightarrow> (exn + unit) \<times> world" where
  "embed_subtitle_in_video e video_file_path subtitle_file_path output_file_path w =
     (let w1 = logging (LogInfo (''Embedding subtitles from '' @ subtitle_file_path
                                  @ '' into video '' @ video_file_path)) w;
          command = embed_command video_file_path subtitle_file_path output_file_path
      in case subprocess_run e command w1 of
           (Inr _, w2) \<Rightarrow>
             (Inr (), logging (LogInfo (''Video with subtitles saved as '' @ output_file_path)) w2)
         | (Inl (Called c), w2) \<Rightarrow>
             (Inl (OSError ''Failed to embed subtitles in video'' (Some c)),
              logging (LogError ''Failed to embed subtitles in video'') w2)
         | (Inl (Other x), w2) \<Rightarrow> (Inl x, w2))"

subsection \<open>The orchestrator: main\<close>

text \<open>
  The loop of \<open>main\<close> carries the world and the local variable \<open>subtitle_file_path\<close>,
  which is unbound (\<open>None\<close>) until the first transcription returns and keeps its value
  from one item to the next.
\<close>

type_synonym loop_state = "world \<times> string option"

definition video_file_path :: "string \<Rightarrow> upload \<Rightarrow> string" where
  "video_file_path temp_dir uploaded_video = path_join temp_dir (upload_name uploaded_video)"

definition output_audio_path :: "string \<Rightarrow> string" where
  "output_audio_path temp_dir = path_join temp_dir ''extracted_audio.wav''"

definition output_video_path :: "string \<Rightarrow> upload \<Rightarrow> string" where
  "output_video_path temp_dir uploaded_video =
     path_join temp_dir (''output_'' @ upload_name uploaded_video)"

text \<open>The body of the \<open>try\<close>: the three stages, then the download button and the preview.\<close>

definition run_stages :: "env \<Rightarrow> string \<Rightarrow> upload \<Rightarrow> loop_state \<Rightarrow> (exn + unit) \<times> loop_state" where
  "run_stages e temp_dir uploaded_video s =
     (case s of (w, subtitle_file_path) \<Rightarrow>
        (case extract_audio_from_video e (video_file_path temp_dir uploaded_video)
                (output_audio_path temp_dir) w of
           (Inl x, w1) \<Rightarrow> (Inl x, (w1, subtitle_file_path))
         | (Inr _, w1) \<Rightarrow>
             (case transcribe_and_save_srt e (output_audio_path temp_dir)
                     (upload_name uploaded_video) w1 of
                (Inl x, w2) \<Rightarrow> (Inl x, (w2, subtitle_file_path))
              | (Inr srt, w2) \<Rightarrow>
                  (case embed_subtitle_in_video e (video_file_path temp_dir uploaded_video) srt
                          (output_video_path temp_dir uploaded_video) w2 of
                     (Inl x, w3) \<Rightarrow> (Inl x, (w3, Some srt))
                   | (Inr _, w3) \<Rightarrow>
                       (case open_read (output_video_path temp_dir uploaded_video) w3 of
                          Inl x \<Rightarrow> (Inl x, (w3, Some srt))
                        | Inr f \<Rightarrow>
                            (Inr (),
                             (st (Video (output_video_path temp_dir uploaded_video))
                                (st (DownloadButton
                                       (''Download '' @ upload_name uploaded_video
                                        @ '' with Subtitles'')
                                       f (''output_'' @ upload_name uploaded_video)
                                       ''video/mp4'') w3),
                              Some srt)))))))"

text \<open>
  The \<open>try\<close> with its two handlers. The first component is the exception that escapes,
  if one does.
\<close>

definition try_stages :: "env \<Rightarrow> string \<Rightarrow> upload \<Rightarrow> loop_state \<Rightarrow> exn option \<times> loop_state" where
  "try_stages e temp_dir uploaded_video s =
     (case run_stages e temp_dir uploaded_video s of
        (Inr _, s') \<Rightarrow> (None, s')
      | (Inl x, (w, v)) \<Rightarrow>
          (if is_FileNotFoundError x
           then (None, (st (ErrorBox (upload_name uploaded_video) x) w, v))
           else if is_OSError x
           then (None, (st (ErrorBox (upload_name uploaded_video) x) w, v))
           else (Some x, (w, v))))"

text \<open>The three \<open>os.remove\<close> calls of the cleanup, in order, stopping at the first that raises.\<close>

definition remove_temporary_files ::
  "string \<Rightarrow> upload \<Rightarrow> loop_state \<Rightarrow> (exn + unit) \<times> world" where
  "remove_temporary_files temp_dir uploaded_video s =
     (case s of (w, subtitle_file_path) \<Rightarrow>
        (case os_remove (video_file_path temp_dir uploaded_video) w of
           (Inl x, w1) \<Rightarrow> (Inl x, w1)
         | (Inr _, w1) \<Rightarrow>
             (case os_remove (output_audio_path temp_dir) w1 of
                (Inl x, w2) \<Rightarrow> (Inl x, w2)
              | (Inr _, w2) \<Rightarrow>
                  (case subtitle_file_path of
                     None \<Rightarrow> (Inl (UnboundLocalError ''subtitle_file_path''), w2)
                   | Some srt \<Rightarrow> os_remove srt w2))))"

definition cleanup :: "string \<Rightarrow> upload \<Rightarrow> loop_state \<Rightarrow> exn option \<times> loop_state" where
  "cleanup temp_dir uploaded_video s =
     (case remove_temporary_files temp_dir uploaded_video s of
        (Inr _, w') \<Rightarrow> (None, (w', snd s))
      | (Inl cleanup_error, w') \<Rightarrow>
          (if is_OSError cleanup_error
           then (None, (logging (LogWarning ''Failed to delete temporary file: '' cleanup_error) w',
                        snd s))
           else (Some cleanup_error, (w', snd s))))"

text \<open>One pass through the body of the \<open>for\<close> loop.\<close>

definition process_item :: "env \<Rightarrow> string \<Rightarrow> upload \<Rightarrow> loop_state \<Rightarrow> exn option \<times> loop_state" where
  "process_item e temp_dir uploaded_video s =
     (case open_write (video_file_path temp_dir uploaded_video) (upload_data uploaded_video)
             (fst s) of
        (Inl x, w1) \<Rightarrow> (Some x, (w1, snd s))
      | (Inr _, w1) \<Rightarrow>
          (case try_stages e temp_dir uploaded_video (w1, snd s) of
             (Some x, s2) \<Rightarrow> (Some x, s2)
           | (None, s2) \<Rightarrow> cleanup temp_dir uploaded_video s2))"

fun for_loop :: "env \<Rightarrow> string \<Rightarrow> upload list \<Rightarrow> loop_state \<Rightarrow> exn option \<times> loop_state" where
  "for_loop e temp_dir [] s = (None, s)"
| "for_loop e temp_dir (uploaded_video # rest) s =
     (case process_item e temp_dir uploaded_video s of
        (Some x, s') \<Rightarrow> (Some x, s')
      | (None, s') \<Rightarrow> for_loop e temp_dir rest s')"

text \<open>
  \<open>main\<close>, given what the two input widgets return. The result is the exception that
  leaves \<open>main\<close>, if one does, and the world it leaves behind.
\<close>

definition main :: "env \<Rightarrow> upload list \<Rightarrow> bool \<Rightarrow> world \<Rightarrow> exn option \<times> world" where
  "main e uploaded_videos button w =
     (let w0 = st (Title ''Video Captioning App'') w
      in if uploaded_videos \<noteq> [] \<and> button
         then (case mkdtemp e w0 of
                 (Inl x, w1) \<Rightarrow> (Some x, w1)
               | (Inr temp_dir, w1) \<Rightarrow>
                   (case for_loop e temp_dir uploaded_videos (w1, None) of
                      (r, (w2, _)) \<Rightarrow> (r, w2\<lparr>files := rmtree temp_dir (files w2)\<rparr>)))
         else (None, w0))"

text \<open>A path that \<open>tempfile\<close> can have built with the given suffix.\<close>

definition mktemp_named :: "env \<Rightarrow> string \<Rightarrow> string \<Rightarrow> bool" where
  "mktemp_named e suffix p =
     (\<exists>i. p = path_join (gettempdir e) (''tmp'' @ candidate_name e i @ suffix))"

subsection \<open>Concrete worlds for running the model\<close>

text \<open>
  An empty machine; a transcoder that always succeeds and writes its last argument; a
  service that answers with a subtitle text of two cues; temporary names \<open>aaaaaaaa\<close>,
  \<open>bbbbbbbb\<close>, ... in \<open>/tmp\<close>.
\<close>

definition empty_world :: world where
  "empty_world =
     \<lparr>files = Map.empty, names_drawn = 0, proc_calls = [], net_calls = [], ui = [],
      logged = []\<rparr>"

definition two_cue_srt :: string where
  "two_cue_srt =
     ''1'' @ [CHR 0x0A] @ ''00:00:00,000 --> 00:00:02,000'' @ [CHR 0x0A] @ ''hello'' @ [CHR 0x0A]
     @ [CHR 0x0A]
     @ ''2'' @ [CHR 0x0A] @ ''00:00:02,000 --> 00:00:04,000'' @ [CHR 0x0A] @ ''world'' @ [CHR 0x0A]"

definition working_env :: env where
  "working_env =
     \<lparr>ffmpeg = (\<lambda>argv fs. Exited 0 [] (fs(last argv \<mapsto> File ''media''))),
      whisper = (\<lambda>n r. Body two_cue_srt),
      gettempdir = ''/tmp'',
      choices = (\<lambda>i j. i),
      TMP_MAX = 3,
      linesep = [CHR 0x0A]\<rparr>"

text \<open>The same machine with a service that rejects every request.\<close>

definition rejecting_env :: env where
  "rejecting_env = working_env\<lparr>whisper := (\<lambda>n r. Raises (ServiceError ''Incorrect API key provided''))\<rparr>"

text \<open>
  The same machine with a transcoder that stops half way: it has written part of its
  output file, prints a diagnostic and exits with status 1.
\<close>

definition stopping_env :: env where
  "stopping_env =
     working_env\<lparr>ffmpeg := (\<lambda>argv fs. Exited 1 ''Conversion failed!'' (fs(last argv \<mapsto> File ''part'')))\<rparr>"

text \<open>The same machine on a platform whose line separator is carriage return, line feed.\<close>

definition crlf_env :: env where
  "crlf_env = working_env\<lparr>linesep := [CHR 0x0D, CHR 0x0A]\<rparr>"

definition clip :: upload where
  "clip = \<lparr>upload_name = ''clip.mp4'', upload_data = ''video one''\<rparr>"

definition talk :: upload where
  "talk = \<lparr>upload_name = ''talk.mkv'', upload_data = ''video two''\<rparr>"


text \<open>
  On these machines the first temporary name goes to the workspace of the run;
  \<open>started_world\<close> is the world in which \<open>main\<close> enters its loop.
\<close>

definition workspace :: string where
  "workspace = ''/tmp/tmpaaaaaaaa''"

definition started_world :: world where
  "started_world = snd (mkdtemp working_env (st (Title ''Video Captioning App'') empty_world))"

text \<open>What a finished transcoder process returned and printed.\<close>

fun exit_status :: "proc_result \<Rightarrow> int option" where
  "exit_status (Exited rc diag fs) = Some rc"
| "exit_status NoSuchProgram = None"

fun diagnostic_output :: "proc_result \<Rightarrow> string" where
  "diagnostic_output (Exited rc diag fs) = diag"
| "diagnostic_output NoSuchProgram = []"

section \<open>Properties\<close>

subsection \<open>Auxiliary facts about the library calls and the stages\<close>

lemma text_mode_bytes_lf: "text_mode_bytes [CHR 0x0A] s = s"
  by (induction s) simp_all

lemma text_mode_bytes_no_lf: "CHR 0x0A \<notin> set s \<Longrightarrow> text_mode_bytes sep s = s"
  by (induction s) auto

lemma mktemp_loop_fresh:
  "mktemp_loop e fs suffix k i = (Some p, j) \<Longrightarrow> fs p = None"
  by (induction k arbitrary: i) (auto simp: Let_def split: if_splits)

lemma mktemp_fresh: "mktemp e suffix w = (Inr p, w') \<Longrightarrow> files w p = None \<and> files w' = files w"
  by (auto simp: mktemp_def split: prod.splits option.splits dest: mktemp_loop_fresh)

lemma mktemp_only_reads:
  "files w2 = files w \<Longrightarrow> names_drawn w2 = names_drawn w \<Longrightarrow>
   fst (mktemp e suffix w2) = fst (mktemp e suffix w)"
  by (simp add: mktemp_def split: prod.splits option.splits)

lemma extract_proc_calls:
  "proc_calls (snd (extract_audio_from_video e v a w)) = proc_calls w @ [extract_command v a]"
  by (simp add: extract_audio_from_video_def subprocess_run_def logging_def Let_def
      split: proc_result.splits)

lemma embed_proc_calls:
  "proc_calls (snd (embed_subtitle_in_video e v s out w)) = proc_calls w @ [embed_command v s out]"
  by (simp add: embed_subtitle_in_video_def subprocess_run_def logging_def Let_def
      split: proc_result.splits)

lemma extract_net_calls:
  "net_calls (snd (extract_audio_from_video e v a w)) = net_calls w"
  by (simp add: extract_audio_from_video_def subprocess_run_def logging_def Let_def
      split: proc_result.splits)

lemma transcribe_proc_calls:
  "proc_calls (snd (transcribe_and_save_srt e a n w)) = proc_calls w"
  by (auto simp: transcribe_and_save_srt_def open_read_def open_write_def mktemp_def logging_def
      Let_def split: option.splits node.splits svc_result.splits prod.splits sum.splits)

lemma transcribe_returns:
  assumes "transcribe_and_save_srt e a n w = (Inr p, w')"
  shows "\<exists>bytes body. files w a = Some (File bytes)
           \<and> whisper e (length (net_calls w)) (TranscribeRequest ''whisper-1'' bytes ''srt'') = Body body
           \<and> files w p = None
           \<and> files w' = (files w)(p \<mapsto> File (text_mode_bytes (linesep e) body))"
  using assms
  by (auto simp: transcribe_and_save_srt_def isfile_def open_read_def open_write_def logging_def
      Let_def
      split: option.splits node.splits svc_result.splits prod.splits sum.splits if_splits
      dest!: mktemp_fresh)

subsection \<open>The transcriber\<close>

text \<open>
  Claim C2. When the audio path does not name an existing file, the transcriber raises
  \<open>FileNotFoundError\<close> (the specification's MissingInputError) at once: the world it
  returns is the one it was given, so no request has been sent to the service.
\<close>

theorem transcribe_missing_audio:
  assumes "\<not> isfile (files w) audio_file_path"
  shows "transcribe_and_save_srt e audio_file_path input_video_name w =
           (Inl (FileNotFoundError (''Audio file '' @ audio_file_path @ '' does not exist'')), w)
         \<and> net_calls (snd (transcribe_and_save_srt e audio_file_path input_video_name w)) =
             net_calls w"
  using assms by (simp add: transcribe_and_save_srt_def)

theorem transcribe_missing_audio_witness:
  "\<not> isfile (files empty_world) ''/tmp/tmpaaaaaaaa/extracted_audio.wav''
   \<and> fst (transcribe_and_save_srt working_env ''/tmp/tmpaaaaaaaa/extracted_audio.wav'' ''clip.mp4''
            empty_world) =
       Inl (FileNotFoundError
              ''Audio file /tmp/tmpaaaaaaaa/extracted_audio.wav does not exist'')
   \<and> net_calls (snd (transcribe_and_save_srt working_env ''/tmp/tmpaaaaaaaa/extracted_audio.wav''
                       ''clip.mp4'' empty_world)) = []"
proof -
  have h: "\<not> isfile (files empty_world) ''/tmp/tmpaaaaaaaa/extracted_audio.wav''"
    by (simp add: isfile_def empty_world_def)
  from transcribe_missing_audio [OF h, of working_env "''clip.mp4''"] h
  show ?thesis by (simp add: empty_world_def)
qed

text \<open>
  Claim C3, as the code has it. Given an existing audio file, a service that answers and
  a free temporary name, the transcriber returns that name, and the file under it holds
  the response as a text-mode write leaves it: every line feed written as the line
  separator of the platform, nothing else changed. Where the line separator is a line
  feed (every POSIX system), and for a response without line feeds anywhere, the file is
  the response, byte for byte.
\<close>

theorem srt_file_is_service_response:
  assumes "files w audio_file_path = Some (File audio_file)"
      and "whisper e (length (net_calls w)) (TranscribeRequest ''whisper-1'' audio_file ''srt'')
             = Body body"
      and "fst (mktemp e ''.srt'' w) = Inr srt_path"
  shows "fst (transcribe_and_save_srt e audio_file_path input_video_name w) = Inr srt_path
         \<and> files (snd (transcribe_and_save_srt e audio_file_path input_video_name w)) srt_path
             = Some (File (text_mode_bytes (linesep e) body))
         \<and> (linesep e = [CHR 0x0A] \<or> CHR 0x0A \<notin> set body \<longrightarrow>
              files (snd (transcribe_and_save_srt e audio_file_path input_video_name w)) srt_path
                = Some (File body))"
proof -
  let ?w1 = "logging (LogInfo (''Transcribing audio file '' @ audio_file_path)) w"
  let ?w2 = "?w1\<lparr>net_calls := net_calls ?w1
                 @ [TranscribeRequest ''whisper-1'' audio_file ''srt'']\<rparr>"
  obtain w3 where m: "mktemp e ''.srt'' ?w2 = (Inr srt_path, w3)"
    using assms(3) mktemp_only_reads [of ?w2 w e "''.srt''"]
    by (cases "mktemp e ''.srt'' ?w2") (simp add: logging_def)
  from mktemp_fresh [OF m] have fresh: "files w3 srt_path = None"
    by (simp add: logging_def)
  have r: "fst (transcribe_and_save_srt e audio_file_path input_video_name w) = Inr srt_path
           \<and> files (snd (transcribe_and_save_srt e audio_file_path input_video_name w)) srt_path
               = Some (File (text_mode_bytes (linesep e) body))"
    using assms(1,2) m fresh
    by (simp add: transcribe_and_save_srt_def isfile_def open_read_def open_write_def
        logging_def Let_def)
  have "linesep e = [CHR 0x0A] \<or> CHR 0x0A \<notin> set body \<Longrightarrow>
          text_mode_bytes (linesep e) body = body"
    using text_mode_bytes_lf [of body] text_mode_bytes_no_lf [of body "linesep e"] by auto
  then show ?thesis
    using r by simp
qed

theorem srt_file_is_service_response_witness:
  "fst (transcribe_and_save_srt working_env ''/tmp/a.wav'' ''clip.mp4''
          (empty_world\<lparr>files := [''/tmp/a.wav'' \<mapsto> File ''sound'']\<rparr>)) = Inr ''/tmp/tmpaaaaaaaa.srt''
   \<and> linesep working_env = [CHR 0x0A]
   \<and> files (snd (transcribe_and_save_srt working_env ''/tmp/a.wav'' ''clip.mp4''
                  (empty_world\<lparr>files := [''/tmp/a.wav'' \<mapsto> File ''sound'']\<rparr>)))
        ''/tmp/tmpaaaaaaaa.srt'' = Some (File two_cue_srt)"
proof -
  let ?w = "empty_world\<lparr>files := [''/tmp/a.wav'' \<mapsto> File ''sound'']\<rparr>"
  have a: "files ?w ''/tmp/a.wav'' = Some (File ''sound'')"
    by simp
  have b: "whisper working_env (length (net_calls ?w)) (TranscribeRequest ''whisper-1'' ''sound'' ''srt'')
             = Body two_cue_srt"
    by (simp add: working_env_def)
  have c: "fst (mktemp working_env ''.srt'' ?w) = Inr ''/tmp/tmpaaaaaaaa.srt''"
    by code_simp
  have d: "linesep working_env = [CHR 0x0A]"
    by (simp add: working_env_def)
  from srt_file_is_service_response [OF a b c, of "''clip.mp4''"] d
  show ?thesis by blast
qed

text \<open>
  Claim C3 as stated fails: on a platform whose line separator is carriage return, line
  feed, the service answers with the subtitle text of two cues and the file the
  transcriber writes is not that text; it is longer, each of its line feeds being preceded
  by a carriage return.
\<close>

theorem srt_file_differs_from_response:
  "whisper crlf_env 0 (TranscribeRequest ''whisper-1'' ''sound'' ''srt'') = Body two_cue_srt
   \<and> fst (transcribe_and_save_srt crlf_env ''/tmp/a.wav'' ''clip.mp4''
            (empty_world\<lparr>files := [''/tmp/a.wav'' \<mapsto> File ''sound'']\<rparr>))
       = Inr ''/tmp/tmpaaaaaaaa.srt''
   \<and> files (snd (transcribe_and_save_srt crlf_env ''/tmp/a.wav'' ''clip.mp4''
                    (empty_world\<lparr>files := [''/tmp/a.wav'' \<mapsto> File ''sound'']\<rparr>)))
        ''/tmp/tmpaaaaaaaa.srt''
       \<noteq> Some (File two_cue_srt)
   \<and> files (snd (transcribe_and_save_srt crlf_env ''/tmp/a.wav'' ''clip.mp4''
                    (empty_world\<lparr>files := [''/tmp/a.wav'' \<mapsto> File ''sound'']\<rparr>)))
        ''/tmp/tmpaaaaaaaa.srt''
       = Some (File (''1'' @ [CHR 0x0D, CHR 0x0A] @ ''00:00:00,000 --> 00:00:02,000''
                     @ [CHR 0x0D, CHR 0x0A] @ ''hello'' @ [CHR 0x0D, CHR 0x0A]
                     @ [CHR 0x0D, CHR 0x0A]
                     @ ''2'' @ [CHR 0x0D, CHR 0x0A] @ ''00:00:02,000 --> 00:00:04,000''
                     @ [CHR 0x0D, CHR 0x0A] @ ''world'' @ [CHR 0x0D, CHR 0x0A]))"
  by code_simp

text \<open>
  Claim C10. The second argument of the transcriber, the name of the input video, has no
  effect: two calls that differ only in it return the same result and leave the same
  world (the same request, the same file under the same name, the same log).
\<close>

theorem transcribe_ignores_video_name:
  "transcribe_and_save_srt e audio_file_path name1 w =
   transcribe_and_save_srt e audio_file_path name2 w"
  by (simp add: transcribe_and_save_srt_def)

subsection \<open>The transcoder invocations\<close>

text \<open>
  Claim C4. The argument vector handed to the transcoder is
  \<open>ffmpeg -i <input> -q:a 0 -map a <output>\<close> for the extraction and
  \<open>ffmpeg -i <input> -vf subtitles=<subtitle_path> <output>\<close> for the embedding,
  whatever the paths are and however the process ends.
\<close>

theorem transcoder_argument_vectors:
  "proc_calls (snd (extract_audio_from_video e input_path output_path w)) =
     proc_calls w @ [[''ffmpeg'', ''-i'', input_path, ''-q:a'', ''0'', ''-map'', ''a'', output_path]]
   \<and> proc_calls (snd (embed_subtitle_in_video e input_path subtitle_path output_path w)) =
       proc_calls w
       @ [[''ffmpeg'', ''-i'', input_path, ''-vf'', ''subtitles='' @ subtitle_path, output_path]]"
  by (simp add: extract_audio_from_video_def embed_subtitle_in_video_def subprocess_run_def
      extract_command_def embed_command_def logging_def Let_def
      split: proc_result.splits)

text \<open>
  Claim C6, as the code has it. When the transcoder exits with a non-zero status, the
  extraction raises \<open>OSError\<close> with the fixed message "Failed to extract audio from
  video" and the embedding raises \<open>OSError\<close> with the fixed message "Failed to embed
  subtitles in video"; each is chained to the \<open>CalledProcessError\<close>, which holds the
  exit status and the command and no captured output. What the process printed does not
  occur in the result.
\<close>

theorem transcoder_failure_is_fixed_message:
  "(ffmpeg e (extract_command input_path output_path) (files w) = Exited rc diag fs' \<and> rc \<noteq> 0 \<longrightarrow>
      fst (extract_audio_from_video e input_path output_path w) =
        Inl (OSError ''Failed to extract audio from video''
               (Some (CalledProcessError rc (extract_command input_path output_path) None None))))
   \<and> (ffmpeg e (embed_command input_path subtitle_path output_path) (files w) = Exited rc diag fs' \<and> rc \<noteq> 0 \<longrightarrow>
      fst (embed_subtitle_in_video e input_path subtitle_path output_path w) =
        Inl (OSError ''Failed to embed subtitles in video''
               (Some (CalledProcessError rc (embed_command input_path subtitle_path output_path) None None))))"
  by (simp add: extract_audio_from_video_def embed_subtitle_in_video_def subprocess_run_def
      logging_def Let_def)

theorem transcoder_failure_is_fixed_message_witness:
  "fst (extract_audio_from_video stopping_env ''in.mp4'' ''out.wav'' empty_world) =
     Inl (OSError ''Failed to extract audio from video''
            (Some (CalledProcessError 1 (extract_command ''in.mp4'' ''out.wav'') None None)))
   \<and> fst (embed_subtitle_in_video stopping_env ''in.mp4'' ''in.srt'' ''out.mp4'' empty_world) =
     Inl (OSError ''Failed to embed subtitles in video''
            (Some (CalledProcessError 1 (embed_command ''in.mp4'' ''in.srt'' ''out.mp4'') None None)))"
proof -
  let ?fs1 = "(files empty_world)(''out.wav'' \<mapsto> File ''part'')"
  let ?fs2 = "(files empty_world)(''out.mp4'' \<mapsto> File ''part'')"
  have a: "ffmpeg stopping_env (extract_command ''in.mp4'' ''out.wav'') (files empty_world)
             = Exited 1 ''Conversion failed!'' ?fs1 \<and> (1::int) \<noteq> 0"
    by (simp add: stopping_env_def working_env_def extract_command_def)
  have b: "ffmpeg stopping_env (embed_command ''in.mp4'' ''in.srt'' ''out.mp4'') (files empty_world)
             = Exited 1 ''Conversion failed!'' ?fs2 \<and> (1::int) \<noteq> 0"
    by (simp add: stopping_env_def working_env_def embed_command_def)
  from transcoder_failure_is_fixed_message
         [where e = stopping_env and input_path = "''in.mp4''" and output_path = "''out.wav''"
            and w = empty_world and rc = 1 and diag = "''Conversion failed!''" and fs' = ?fs1]
       transcoder_failure_is_fixed_message
         [where e = stopping_env and input_path = "''in.mp4''" and output_path = "''out.mp4''"
            and subtitle_path = "''in.srt''"
            and w = empty_world and rc = 1 and diag = "''Conversion failed!''" and fs' = ?fs2]
       a b
  show ?thesis by blast
qed

text \<open>
  Claim C6 as stated fails: a transcoder that prints "Conversion failed!" and exits with
  status 1 makes the extraction raise an error in which that text occurs nowhere, neither
  in the message nor in the chained cause.
\<close>

theorem diagnostic_output_not_carried:
  "exit_status (ffmpeg stopping_env (extract_command ''in.mp4'' ''out.wav'') (files empty_world))
     = Some 1
   \<and> diagnostic_output
       (ffmpeg stopping_env (extract_command ''in.mp4'' ''out.wav'') (files empty_world))
     = ''Conversion failed!''
   \<and> fst (extract_audio_from_video stopping_env ''in.mp4'' ''out.wav'' empty_world) =
       Inl (OSError ''Failed to extract audio from video''
              (Some (CalledProcessError 1 (extract_command ''in.mp4'' ''out.wav'') None None)))
   \<and> \<not> carries (OSError ''Failed to extract audio from video''
                   (Some (CalledProcessError 1 (extract_command ''in.mp4'' ''out.wav'') None None)))
          ''Conversion failed!''"
  by code_simp

subsection \<open>The order of the stages\<close>

lemma commands_differ: "embed_command v s out \<noteq> extract_command v' a"
  by (simp add: embed_command_def extract_command_def)

lemma embed_command_inj: "embed_command v s out = embed_command v' s' out' \<Longrightarrow> s = s'"
  by (simp add: embed_command_def)

text \<open>
  Claim C5. Within the stages of one item, nothing is sent to the service unless the
  extraction returned normally, and the embedder's command is issued only if the extraction
  and then the transcription returned normally; at the moment it is issued, the audio file
  and the subtitle file both exist, and the only two commands of the item are the
  extraction followed by the embedding. A stage that raises ends the stages of the item.
\<close>

theorem embedder_runs_after_both_stages:
  fixes e temp_dir u w v srt
  defines "V \<equiv> video_file_path temp_dir u"
      and "A \<equiv> output_audio_path temp_dir"
      and "out \<equiv> output_video_path temp_dir u"
      and "w' \<equiv> fst (snd (run_stages e temp_dir u (w, v)))"
  shows "(net_calls w' \<noteq> net_calls w \<longrightarrow>
            (\<exists>w1. extract_audio_from_video e V A w = (Inr (), w1)))
       \<and> (embed_command V srt out \<in> set (drop (length (proc_calls w)) (proc_calls w')) \<longrightarrow>
            (\<exists>w1 w2. extract_audio_from_video e V A w = (Inr (), w1)
                \<and> transcribe_and_save_srt e A (upload_name u) w1 = (Inr srt, w2)
                \<and> isfile (files w2) A \<and> isfile (files w2) srt
                \<and> proc_calls w' = proc_calls w @ [extract_command V A, embed_command V srt out]))"
proof -
  obtain r1 w1 where ex: "extract_audio_from_video e V A w = (r1, w1)"
    by (cases "extract_audio_from_video e V A w") auto
  have p1: "proc_calls w1 = proc_calls w @ [extract_command V A]"
    using extract_proc_calls [of e V A w] ex by simp
  have n1: "net_calls w1 = net_calls w"
    using extract_net_calls [of e V A w] ex by simp
  show ?thesis
  proof (cases r1)
    case (Inl x)
    then have "w' = w1"
      using ex by (simp add: w'_def run_stages_def V_def A_def)
    then show ?thesis
      using p1 n1 commands_differ by auto
  next
    case (Inr x1)
    obtain r2 w2 where tr: "transcribe_and_save_srt e A (upload_name u) w1 = (r2, w2)"
      by (cases "transcribe_and_save_srt e A (upload_name u) w1") auto
    have p2: "proc_calls w2 = proc_calls w1"
      using transcribe_proc_calls [of e A "upload_name u" w1] tr by simp
    show ?thesis
    proof (cases r2)
      case (Inl y)
      then have "w' = w2"
        using ex tr Inr by (simp add: w'_def run_stages_def V_def A_def)
      then show ?thesis
        using p1 p2 ex Inr commands_differ by auto
    next
      case (Inr srt')
      obtain r3 w3 where em: "embed_subtitle_in_video e V srt' out w2 = (r3, w3)"
        by (cases "embed_subtitle_in_video e V srt' out w2") auto
      have p3: "proc_calls w3 = proc_calls w2 @ [embed_command V srt' out]"
        using embed_proc_calls [of e V srt' out w2] em by simp
      have pw: "proc_calls w' = proc_calls w3"
        using ex tr em \<open>r1 = Inr x1\<close> Inr
        by (auto simp: w'_def run_stages_def V_def A_def out_def st_def
            split: sum.splits)
      from transcribe_returns [OF tr [unfolded Inr]]
      have fl: "isfile (files w2) A \<and> isfile (files w2) srt'"
        by (auto simp: isfile_def)
      show ?thesis
        using p1 p2 p3 pw ex tr \<open>r1 = Inr x1\<close> Inr fl commands_differ
        by (auto dest: embed_command_inj)
    qed
  qed
qed

theorem embedder_runs_after_both_stages_witness:
  "net_calls (fst (snd (run_stages working_env workspace clip (started_world, None))))
     \<noteq> net_calls started_world
   \<and> (\<exists>w1. extract_audio_from_video working_env (video_file_path workspace clip)
               (output_audio_path workspace) started_world = (Inr (), w1))
   \<and> embed_command (video_file_path workspace clip) ''/tmp/tmpbbbbbbbb.srt''
         (output_video_path workspace clip)
       \<in> set (drop (length (proc_calls started_world))
                (proc_calls (fst (snd (run_stages working_env workspace clip
                                         (started_world, None))))))
   \<and> (\<exists>w1 w2. extract_audio_from_video working_env (video_file_path workspace clip)
                  (output_audio_path workspace) started_world = (Inr (), w1)
         \<and> transcribe_and_save_srt working_env (output_audio_path workspace)
               (upload_name clip) w1 = (Inr ''/tmp/tmpbbbbbbbb.srt'', w2)
         \<and> isfile (files w2) (output_audio_path workspace)
         \<and> isfile (files w2) ''/tmp/tmpbbbbbbbb.srt''
         \<and> proc_calls (fst (snd (run_stages working_env workspace clip (started_world, None))))
             = proc_calls started_world
               @ [extract_command (video_file_path workspace clip) (output_audio_path workspace),
                  embed_command (video_file_path workspace clip) ''/tmp/tmpbbbbbbbb.srt''
                    (output_video_path workspace clip)])"
proof -
  have a: "net_calls (fst (snd (run_stages working_env workspace clip (started_world, None))))
             \<noteq> net_calls started_world"
    by code_simp
  have b: "embed_command (video_file_path workspace clip) ''/tmp/tmpbbbbbbbb.srt''
             (output_video_path workspace clip)
           \<in> set (drop (length (proc_calls started_world))
                    (proc_calls (fst (snd (run_stages working_env workspace clip
                                             (started_world, None))))))"
    by code_simp
  from embedder_runs_after_both_stages
         [of working_env workspace clip started_world None "''/tmp/tmpbbbbbbbb.srt''"] a b
  show ?thesis by blast
qed

subsection \<open>Failures and the rest of the batch\<close>

text \<open>
  Claim C1 fails on the code. The handlers of \<open>main\<close> catch \<open>FileNotFoundError\<close> and
  \<open>OSError\<close> only. With a service that rejects the request (an exception of the client
  library, not an \<open>OSError\<close>), a batch of two uploads ends at the first: the exception
  leaves \<open>main\<close>, no message names the item, and the only transcoder command ever issued is
  the extraction of the first upload. The second run shows the other way out: an extraction
  that fails after writing part of its output is reported, but the cleanup then reads the
  unbound variable \<open>subtitle_file_path\<close> and the batch ends there too.
\<close>

theorem service_failure_aborts_batch:
  "fst (main rejecting_env [clip, talk] True empty_world)
     = Some (ServiceError ''Incorrect API key provided'')
   \<and> proc_calls (snd (main rejecting_env [clip, talk] True empty_world))
     = [extract_command ''/tmp/tmpaaaaaaaa/clip.mp4'' ''/tmp/tmpaaaaaaaa/extracted_audio.wav'']
   \<and> ui (snd (main rejecting_env [clip, talk] True empty_world))
     = [Title ''Video Captioning App'']
   \<and> fst (main stopping_env [talk, clip] True empty_world)
     = Some (UnboundLocalError ''subtitle_file_path'')
   \<and> proc_calls (snd (main stopping_env [talk, clip] True empty_world))
     = [extract_command ''/tmp/tmpaaaaaaaa/talk.mkv'' ''/tmp/tmpaaaaaaaa/extracted_audio.wav'']"
  by code_simp

text \<open>
  Claim C7 fails on the code. The first item's extraction exits with status 1 and leaves a
  partial audio file. The failure is reported; the cleanup removes the input copy and the
  audio file, and then evaluates \<open>subtitle_file_path\<close>, which no transcription has bound.
  The \<open>UnboundLocalError\<close> is not an \<open>OSError\<close>: no warning is logged, the exception
  leaves \<open>main\<close> and the second upload is never processed.
\<close>

theorem cleanup_raises_unbound_variable:
  "fst (main stopping_env [clip, talk] True empty_world)
     = Some (UnboundLocalError ''subtitle_file_path'')
   \<and> proc_calls (snd (main stopping_env [clip, talk] True empty_world))
     = [extract_command ''/tmp/tmpaaaaaaaa/clip.mp4'' ''/tmp/tmpaaaaaaaa/extracted_audio.wav'']
   \<and> ui (snd (main stopping_env [clip, talk] True empty_world))
     = [Title ''Video Captioning App'',
        ErrorBox ''clip.mp4''
          (OSError ''Failed to extract audio from video''
             (Some (CalledProcessError 1
                      (extract_command ''/tmp/tmpaaaaaaaa/clip.mp4''
                         ''/tmp/tmpaaaaaaaa/extracted_audio.wav'') None None)))]
   \<and> logged (snd (main stopping_env [clip, talk] True empty_world))
     = [LogInfo ''Extracting audio from /tmp/tmpaaaaaaaa/clip.mp4 to /tmp/tmpaaaaaaaa/extracted_audio.wav'',
        LogError ''Failed to extract audio from video'']"
  by code_simp

subsection \<open>Where the files live\<close>

lemma mktemp_loop_named:
  "mktemp_loop e fs suffix k i = (Some p, j) \<Longrightarrow> mktemp_named e suffix p"
  unfolding mktemp_named_def
  by (induction k arbitrary: i) (auto simp: Let_def split: if_splits)

lemma mkdtemp_named: "mkdtemp e w = (Inr d, w') \<Longrightarrow> mktemp_named e [] d"
  by (auto simp: mkdtemp_def split: prod.splits option.splits dest: mktemp_loop_named)

lemma mktemp_named_srt: "mktemp e suffix w = (Inr p, w') \<Longrightarrow> mktemp_named e suffix p"
  by (auto simp: mktemp_def split: prod.splits option.splits dest: mktemp_loop_named)

lemma transcribe_named:
  "transcribe_and_save_srt e a n w = (Inr p, w') \<Longrightarrow> mktemp_named e ''.srt'' p"
  by (auto simp: transcribe_and_save_srt_def open_read_def open_write_def Let_def
      split: option.splits node.splits svc_result.splits prod.splits sum.splits if_splits
      dest: mktemp_named_srt)

lemma candidate_name_length: "length (candidate_name e i) = 8"
  by (simp add: candidate_name_def)

lemma candidate_name_chars: "set (candidate_name e i) \<subseteq> set characters"
proof -
  have "0 < length characters"
    by (simp add: characters_def)
  then show ?thesis
    by (auto simp: candidate_name_def)
qed

lemma candidate_name_last: "last (candidate_name e i) \<noteq> CHR ''/''"
proof -
  have "candidate_name e i \<noteq> []"
    using candidate_name_length [of e i] by auto
  then have "last (candidate_name e i) \<in> set characters"
    using candidate_name_chars [of e i] last_in_set by blast
  moreover have "CHR ''/'' \<notin> set characters"
    by (simp add: characters_def)
  ultimately show ?thesis by metis
qed

lemma workspace_join:
  assumes "mktemp_named e [] d" and "take 1 b \<noteq> ''/''"
  shows "path_join d b = d @ ''/'' @ b"
proof -
  obtain i where d: "d = path_join (gettempdir e) (''tmp'' @ candidate_name e i)"
    using assms(1) by (auto simp: mktemp_named_def)
  have ne: "candidate_name e i \<noteq> []"
    using candidate_name_length [of e i] by auto
  have "d \<noteq> []" and "last d \<noteq> CHR ''/''"
    using d ne candidate_name_last [of e i] by (auto simp: path_join_def)
  then show ?thesis
    using assms(2) by (simp add: path_join_def)
qed

lemma workspace_inside:
  assumes "mktemp_named e [] d" and "take 1 b \<noteq> ''/''"
  shows "inside d (path_join d b)"
  using workspace_join [OF assms] by (simp add: inside_def)

lemma srt_outside_workspace:
  assumes "mktemp_named e [] d" and "mktemp_named e ''.srt'' p"
  shows "\<not> inside d p" and "p \<noteq> d" and "p \<noteq> path_join d (''output_'' @ n)"
proof -
  obtain i where d: "d = path_join (gettempdir e) (''tmp'' @ candidate_name e i)"
    using assms(1) by (auto simp: mktemp_named_def)
  obtain j where p: "p = path_join (gettempdir e) (''tmp'' @ candidate_name e j @ ''.srt'')"
    using assms(2) by (auto simp: mktemp_named_def)
  define G where "G = (if gettempdir e = [] \<or> last (gettempdir e) = CHR ''/''
                       then gettempdir e else gettempdir e @ ''/'') @ ''tmp''"
  have d': "d = G @ candidate_name e i"
    using d by (simp add: path_join_def G_def)
  have p': "p = G @ candidate_name e j @ ''.srt''"
    using p by (simp add: path_join_def G_def)
  have len: "length (candidate_name e i) = length (candidate_name e j)"
    by (simp add: candidate_name_length)
  show "\<not> inside d p"
  proof
    assume "inside d p"
    then have "take (length (G @ candidate_name e i) + 1) (G @ candidate_name e j @ ''.srt'')
                 = (G @ candidate_name e i) @ ''/''"
      by (simp add: inside_def d' p')
    then have "candidate_name e j @ ''.'' = candidate_name e i @ ''/''"
      by (simp add: candidate_name_length)
    then show False using len by simp
  qed
  show "p \<noteq> d"
  proof
    assume "p = d"
    then have "length (candidate_name e j @ ''.srt'') = length (candidate_name e i)"
      using d' p' by simp
    then show False using len by simp
  qed
  have "path_join d (''output_'' @ n) = d @ ''/'' @ ''output_'' @ n"
    by (rule workspace_join [OF assms(1)]) simp
  then show "p \<noteq> path_join d (''output_'' @ n)"
    using d' p' len by simp
qed















lemma main_run:
  assumes "uploaded_videos \<noteq> []"
      and "mkdtemp e (st (Title ''Video Captioning App'') w) = (Inr temp_dir, w1)"
  shows "files (snd (main e uploaded_videos True w)) =
           rmtree temp_dir (files (fst (snd (for_loop e temp_dir uploaded_videos (w1, None)))))"
  using assms by (simp add: main_def Let_def split: prod.splits)

text \<open>
  Claim C9, as the code has it. The input copy (for an upload whose name is a plain file
  name), the extracted audio and the output video lie inside the workspace directory, and
  when \<open>main\<close> returns, with or without an exception, neither the directory nor any
  path inside it exists. The subtitle file is not among them: every path the transcriber
  returns lies outside the workspace.
\<close>

theorem workspace_holds_all_but_subtitles:
  assumes mk: "mkdtemp e (st (Title ''Video Captioning App'') w) = (Inr temp_dir, w1)"
      and ne: "uploaded_videos \<noteq> []"
  shows "(\<forall>u. bare_name (upload_name u) \<longrightarrow> inside temp_dir (video_file_path temp_dir u))
       \<and> inside temp_dir (output_audio_path temp_dir)
       \<and> (\<forall>u. inside temp_dir (output_video_path temp_dir u))
       \<and> (\<forall>a n wa p wb. transcribe_and_save_srt e a n wa = (Inr p, wb) \<longrightarrow>
             \<not> inside temp_dir p \<and> p \<noteq> temp_dir)
       \<and> files (snd (main e uploaded_videos True w)) temp_dir = None
       \<and> (\<forall>p. inside temp_dir p \<longrightarrow> files (snd (main e uploaded_videos True w)) p = None)"
proof -
  have d: "mktemp_named e [] temp_dir"
    using mk by (rule mkdtemp_named)
  have a: "\<forall>u. bare_name (upload_name u) \<longrightarrow> inside temp_dir (video_file_path temp_dir u)"
  proof (intro allI impI)
    fix u :: upload
    assume "bare_name (upload_name u)"
    then have "take 1 (upload_name u) \<noteq> ''/''"
      by (cases "upload_name u") (auto simp: bare_name_def)
    then show "inside temp_dir (video_file_path temp_dir u)"
      unfolding video_file_path_def by (rule workspace_inside [OF d])
  qed
  have b: "inside temp_dir (output_audio_path temp_dir)"
    unfolding output_audio_path_def by (rule workspace_inside [OF d]) simp
  have c: "\<forall>u. inside temp_dir (output_video_path temp_dir u)"
    unfolding output_video_path_def by (intro allI, rule workspace_inside [OF d]) simp
  have s: "\<forall>a n wa p wb. transcribe_and_save_srt e a n wa = (Inr p, wb) \<longrightarrow>
             \<not> inside temp_dir p \<and> p \<noteq> temp_dir"
    using srt_outside_workspace(1,2) [OF d] transcribe_named by blast
  have m: "files (snd (main e uploaded_videos True w)) temp_dir = None
           \<and> (\<forall>p. inside temp_dir p \<longrightarrow> files (snd (main e uploaded_videos True w)) p = None)"
    using main_run [OF ne mk] by (simp add: rmtree_def)
  show ?thesis
    using a b c s m by blast
qed

theorem workspace_holds_all_but_subtitles_witness:
  "inside workspace (video_file_path workspace clip)
   \<and> inside workspace (output_audio_path workspace)
   \<and> inside workspace (output_video_path workspace clip)
   \<and> \<not> inside workspace ''/tmp/tmpbbbbbbbb.srt''
   \<and> files (snd (main working_env [clip] True empty_world)) workspace = None
   \<and> files (snd (main working_env [clip] True empty_world))
        (output_video_path workspace clip) = None"
proof -
  let ?w0 = "st (Title ''Video Captioning App'') empty_world"
  let ?R = "transcribe_and_save_srt working_env (output_audio_path workspace) ''clip.mp4''
              (snd (extract_audio_from_video working_env (video_file_path workspace clip)
                      (output_audio_path workspace) started_world))"
  have "fst (mkdtemp working_env ?w0) = Inr workspace"
    by code_simp
  then have mk: "mkdtemp working_env ?w0 = (Inr workspace, started_world)"
    unfolding started_world_def by (metis prod.collapse)
  have ne: "[clip] \<noteq> []"
    by simp
  have bare: "bare_name (upload_name clip)"
    by code_simp
  have "fst ?R = Inr ''/tmp/tmpbbbbbbbb.srt''"
    by code_simp
  then have tr: "?R = (Inr ''/tmp/tmpbbbbbbbb.srt'', snd ?R)"
    by (metis prod.collapse)
  from workspace_holds_all_but_subtitles [OF mk ne] bare tr
  show ?thesis by blast
qed

text \<open>
  Claim C9 as stated fails: in the run on one upload, the workspace is
  \<open>/tmp/tmpaaaaaaaa\<close> and the stages leave the subtitle file at
  \<open>/tmp/tmpbbbbbbbb.srt\<close>, directly in the system's temporary directory.
\<close>

theorem subtitle_file_outside_workspace:
  "fst (mkdtemp working_env (st (Title ''Video Captioning App'') empty_world))
     = Inr ''/tmp/tmpaaaaaaaa''
   \<and> snd (snd (run_stages working_env ''/tmp/tmpaaaaaaaa'' clip (started_world, None)))
     = Some ''/tmp/tmpbbbbbbbb.srt''
   \<and> isfile (files (fst (snd (run_stages working_env ''/tmp/tmpaaaaaaaa'' clip
                                (started_world, None)))))
        ''/tmp/tmpbbbbbbbb.srt''
   \<and> \<not> inside ''/tmp/tmpaaaaaaaa'' ''/tmp/tmpbbbbbbbb.srt''"
  by code_simp

end
